theory Spec2Isabelle
  imports Main "HOL-Library.Word" "HOL-Library.Sublist"
begin

section \<open>Python values and the exceptions of the notebook\<close>

text \<open>
  The notebook \<^verbatim>\<open>document_longcontext_idp.ipynb\<close> is a sequence of Python cells. Its
  own code raises nothing explicitly; what can go wrong is a failed lookup in a value
  returned by the provider (\<^verbatim>\<open>KeyError\<close>, \<^verbatim>\<open>IndexError\<close>, \<^verbatim>\<open>TypeError\<close>) or an
  exception raised inside one of the libraries it calls. The latter are kept apart by
  origin only: \<open>HTTPError\<close> is what \<^verbatim>\<open>raise_for_status\<close> raises, \<open>TransportFailure\<close>
  stands for a network level exception of \<^verbatim>\<open>requests\<close> or \<^verbatim>\<open>botocore\<close>, and
  \<open>ProviderFailure\<close> for an error answer of the inference endpoint.
\<close>

datatype py_error =
    KeyError
  | IndexError
  | TypeError
  | HTTPError
  | TransportFailure
  | ProviderFailure

text \<open>
  The values found in a provider response or in a stream event: JSON like data.
  A dict is an association list read with \<open>map_of\<close> (the first binding of a key counts).
\<close>

datatype pyval =
    PNone
  | PBool bool
  | PInt int
  | PStr string
  | PList "pyval list"
  | PDict "(string \<times> pyval) list"

text \<open>\<^verbatim>\<open>v[k]\<close> for a string key \<open>k\<close>: only a dict can be subscripted with a string.\<close>

fun getitem :: "pyval \<Rightarrow> string \<Rightarrow> py_error + pyval" where
  "getitem (PDict d) k = (case map_of d k of None \<Rightarrow> Inl KeyError | Some v \<Rightarrow> Inr v)"
| "getitem PNone k = Inl TypeError"
| "getitem (PBool b) k = Inl TypeError"
| "getitem (PInt i) k = Inl TypeError"
| "getitem (PStr s) k = Inl TypeError"
| "getitem (PList xs) k = Inl TypeError"

text \<open>\<^verbatim>\<open>v[0]\<close>: the first element of a list, the first character of a string; a dict
  with string keys has no key \<open>0\<close>.\<close>

fun getitem0 :: "pyval \<Rightarrow> py_error + pyval" where
  "getitem0 (PList []) = Inl IndexError"
| "getitem0 (PList (x # xs)) = Inr x"
| "getitem0 (PStr []) = Inl IndexError"
| "getitem0 (PStr (c # cs)) = Inr (PStr [c])"
| "getitem0 (PDict d) = Inl KeyError"
| "getitem0 PNone = Inl TypeError"
| "getitem0 (PBool b) = Inl TypeError"
| "getitem0 (PInt i) = Inl TypeError"

text \<open>\<^verbatim>\<open>k in v\<close> for a string \<open>k\<close>: key membership in a dict, substring test in a
  string, element test in a list, \<^verbatim>\<open>TypeError\<close> on a value that is not a container.\<close>

fun contains :: "string \<Rightarrow> pyval \<Rightarrow> py_error + bool" where
  "contains k (PDict d) = Inr (map_of d k \<noteq> None)"
| "contains k (PStr s) = Inr (sublist k s)"
| "contains k (PList xs) = Inr (PStr k \<in> set xs)"
| "contains k PNone = Inl TypeError"
| "contains k (PBool b) = Inl TypeError"
| "contains k (PInt i) = Inl TypeError"

section \<open>Printing and raising\<close>

text \<open>
  Every \<^verbatim>\<open>print\<close> call of the notebook is one item of the output, tagged with the call
  it comes from and carrying the value that the call formats. A computation yields the
  items printed so far together with either the exception that ended it or its value:
  what was printed before an exception stays printed.
\<close>

datatype print_call =
    PrintFileName string
  | PrintRole pyval
  | PrintDelta pyval
  | PrintStopReason pyval
  | PrintTokenUsage
  | PrintInputTokens pyval
  | PrintOutputTokens pyval
  | PrintTotalTokens pyval
  | PrintLatency pyval
  | PrintFullResponse

type_synonym 'a io = "print_call list \<times> (py_error + 'a)"

definition ret :: "'a \<Rightarrow> 'a io" where
  "ret x = ([], Inr x)"

definition raise :: "py_error \<Rightarrow> 'a io" where
  "raise e = ([], Inl e)"

definition emit :: "print_call \<Rightarrow> unit io" where
  "emit p = ([p], Inr ())"

definition lift :: "py_error + 'a \<Rightarrow> 'a io" where
  "lift r = ([], r)"

definition bind :: "'a io \<Rightarrow> ('a \<Rightarrow> 'b io) \<Rightarrow> 'b io" where
  "bind m f =
     (case m of
        (out, Inl e) \<Rightarrow> (out, Inl e)
      | (out, Inr x) \<Rightarrow> (case f x of (out', r) \<Rightarrow> (out @ out', r)))"

definition bind_err :: "py_error + 'a \<Rightarrow> ('a \<Rightarrow> py_error + 'b) \<Rightarrow> py_error + 'b" where
  "bind_err r f = (case r of Inl e \<Rightarrow> Inl e | Inr x \<Rightarrow> f x)"

section \<open>The stream event loop\<close>

text \<open>
  The body of \<^verbatim>\<open>for event in stream\<close>: four \<^verbatim>\<open>if\<close> statements, one after the other,
  none of them an \<^verbatim>\<open>elif\<close>.
  \<^verbatim>\<open>
  if 'messageStart' in event:
      print(f"\nRole: {event['messageStart']['role']}")
  \<close>
\<close>

definition on_message_start :: "pyval \<Rightarrow> unit io" where
  "on_message_start event =
     bind (lift (contains ''messageStart'' event)) (\<lambda>present.
       if present then
         bind (lift (bind_err (getitem event ''messageStart'') (\<lambda>m. getitem m ''role'')))
           (\<lambda>role. emit (PrintRole role))
       else ret ())"

text \<open>
  \<^verbatim>\<open>
  if 'contentBlockDelta' in event:
      print(event['contentBlockDelta']['delta']['text'], end="")
  \<close>
\<close>

definition on_content_block_delta :: "pyval \<Rightarrow> unit io" where
  "on_content_block_delta event =
     bind (lift (contains ''contentBlockDelta'' event)) (\<lambda>present.
       if present then
         bind (lift (bind_err (getitem event ''contentBlockDelta'') (\<lambda>b.
                     bind_err (getitem b ''delta'') (\<lambda>d. getitem d ''text''))))
           (\<lambda>text. emit (PrintDelta text))
       else ret ())"

text \<open>
  \<^verbatim>\<open>
  if 'messageStop' in event:
      print(f"\nStop reason: {event['messageStop']['stopReason']}")
  \<close>
\<close>

definition on_message_stop :: "pyval \<Rightarrow> unit io" where
  "on_message_stop event =
     bind (lift (contains ''messageStop'' event)) (\<lambda>present.
       if present then
         bind (lift (bind_err (getitem event ''messageStop'') (\<lambda>m. getitem m ''stopReason'')))
           (\<lambda>reason. emit (PrintStopReason reason))
       else ret ())"

text \<open>
  \<^verbatim>\<open>
  if 'usage' in metadata:
      print("\nToken usage")
      print(f"Input tokens: {metadata['usage']['inputTokens']}")
      print(f":Output tokens: {metadata['usage']['outputTokens']}")
      print(f":Total tokens: {metadata['usage']['totalTokens']}")
  \<close>
  Each line looks \<^verbatim>\<open>metadata['usage']\<close> up again, and a line is printed only once its
  value has been found.
\<close>

definition print_usage :: "pyval \<Rightarrow> unit io" where
  "print_usage metadata =
     bind (lift (contains ''usage'' metadata)) (\<lambda>present.
       if present then
         bind (emit PrintTokenUsage) (\<lambda>_.
         bind (lift (bind_err (getitem metadata ''usage'') (\<lambda>u. getitem u ''inputTokens'')))
           (\<lambda>n. bind (emit (PrintInputTokens n)) (\<lambda>_.
         bind (lift (bind_err (getitem metadata ''usage'') (\<lambda>u. getitem u ''outputTokens'')))
           (\<lambda>n. bind (emit (PrintOutputTokens n)) (\<lambda>_.
         bind (lift (bind_err (getitem metadata ''usage'') (\<lambda>u. getitem u ''totalTokens'')))
           (\<lambda>n. emit (PrintTotalTokens n)))))))
       else ret ())"

text \<open>
  \<^verbatim>\<open>
  if 'metrics' in event['metadata']:
      print(f"Latency: {metadata['metrics']['latencyMs']} milliseconds")
  \<close>
\<close>

definition print_latency :: "pyval \<Rightarrow> pyval \<Rightarrow> unit io" where
  "print_latency event metadata =
     bind (lift (bind_err (getitem event ''metadata'') (contains ''metrics''))) (\<lambda>present.
       if present then
         bind (lift (bind_err (getitem metadata ''metrics'') (\<lambda>m. getitem m ''latencyMs'')))
           (\<lambda>ms. emit (PrintLatency ms))
       else ret ())"

text \<open>
  \<^verbatim>\<open>
  if 'metadata' in event:
      metadata = event['metadata']
      ...
  \<close>
\<close>

definition on_metadata :: "pyval \<Rightarrow> unit io" where
  "on_metadata event =
     bind (lift (contains ''metadata'' event)) (\<lambda>present.
       if present then
         bind (lift (getitem event ''metadata'')) (\<lambda>metadata.
         bind (print_usage metadata) (\<lambda>_. print_latency event metadata))
       else ret ())"

definition handle_event :: "pyval \<Rightarrow> unit io" where
  "handle_event event =
     bind (on_message_start event) (\<lambda>_.
     bind (on_content_block_delta event) (\<lambda>_.
     bind (on_message_stop event) (\<lambda>_.
     on_metadata event)))"

text \<open>
  An event stream is what its iterator delivers: a finite list of events, and then
  either the normal end of the iteration (\<open>None\<close>) or an exception raised by the
  transport while the next event is awaited (\<open>Some e\<close>).
\<close>

record event_stream =
  delivered :: "pyval list"
  closing :: "py_error option"

text \<open>\<^verbatim>\<open>for event in stream: ...\<close>: an exception in the body ends the loop.\<close>

fun for_events :: "pyval list \<Rightarrow> py_error option \<Rightarrow> unit io" where
  "for_events [] c = (case c of None \<Rightarrow> ret () | Some e \<Rightarrow> raise e)"
| "for_events (event # events) c = bind (handle_event event) (\<lambda>_. for_events events c)"

text \<open>
  \<^verbatim>\<open>
  stream = model_response.get('stream')
  if stream:
      for event in stream: ...
  \<close>
  The argument is the value of \<^verbatim>\<open>model_response.get('stream')\<close>, \<open>None\<close> when the
  response has no such key. A stream object is true whatever it will deliver.
\<close>

definition consume_stream :: "event_stream option \<Rightarrow> unit io" where
  "consume_stream stream =
     (case stream of
        None \<Rightarrow> ret ()
      | Some s \<Rightarrow> for_events (delivered s) (closing s))"

section \<open>The conversation turn\<close>

text \<open>
  \<^verbatim>\<open>messages = [{"role": "user", "content": []}]\<close>. The content blocks the notebook
  builds are \<^verbatim>\<open>{"text": ...}\<close> and
  \<^verbatim>\<open>{"document": {"name": ..., "format": "pdf", "source": {"bytes": ...}}}\<close>.
\<close>

type_synonym byte = "8 word"

record document =
  name :: string
  format :: string
  bytes :: "byte list"

datatype content_block = Text string | Document document

record turn =
  role :: string
  content :: "content_block list"

definition create_turn :: "string \<Rightarrow> turn" where
  "create_turn r = \<lparr>role = r, content = []\<rparr>"

definition initial_messages :: "turn list" where
  "initial_messages = [create_turn ''user'']"

text \<open>\<^verbatim>\<open>messages[0]['content'].append(block)\<close>; \<^verbatim>\<open>messages[0]\<close> raises on an empty
  list.\<close>

fun append_content :: "content_block \<Rightarrow> turn list \<Rightarrow> py_error + turn list" where
  "append_content b [] = Inl IndexError"
| "append_content b (t # ts) = Inr (t\<lparr>content := content t @ [b]\<rparr> # ts)"

text \<open>\<^verbatim>\<open>query = {"text": text}; messages[0]['content'].append(query)\<close>\<close>

definition append_text :: "string \<Rightarrow> turn list \<Rightarrow> py_error + turn list" where
  "append_text text = append_content (Text text)"

text \<open>The dict \<^verbatim>\<open>obj\<close> of the download loop: the format is the literal \<^verbatim>\<open>"pdf"\<close>, and
  nothing looks at the bytes.\<close>

definition document_block :: "string \<Rightarrow> byte list \<Rightarrow> content_block" where
  "document_block file_name pdf_file_object =
     Document \<lparr>name = file_name, format = ''pdf'', bytes = pdf_file_object\<rparr>"

definition append_document :: "string \<Rightarrow> byte list \<Rightarrow> turn list \<Rightarrow> py_error + turn list" where
  "append_document file_name pdf_file_object =
     append_content (document_block file_name pdf_file_object)"

section \<open>The download loop\<close>

text \<open>\<^verbatim>\<open>s.split(c)\<close> for a separator of one character: never an empty list.\<close>

fun split :: "char \<Rightarrow> string \<Rightarrow> string list" where
  "split c [] = [[]]"
| "split c (x # xs) =
     (if x = c then [] # split c xs
      else (case split c xs of [] \<Rightarrow> [[x]] | p # ps \<Rightarrow> (x # p) # ps))"

text \<open>\<^verbatim>\<open>xs[-1]\<close> and \<^verbatim>\<open>xs[0]\<close> on a list.\<close>

definition last_item :: "'a list \<Rightarrow> py_error + 'a" where
  "last_item xs = (if xs = [] then Inl IndexError else Inr (last xs))"

definition first_item :: "'a list \<Rightarrow> py_error + 'a" where
  "first_item xs = (case xs of [] \<Rightarrow> Inl IndexError | x # _ \<Rightarrow> Inr x)"

text \<open>\<^verbatim>\<open>file_name = report_url.split("/")[-1].split('.')[0]\<close>\<close>

definition file_name :: "string \<Rightarrow> py_error + string" where
  "file_name report_url =
     bind_err (last_item (split CHR ''/'' report_url)) (\<lambda>segment.
       first_item (split CHR ''.'' segment))"

text \<open>
  The answer of \<^verbatim>\<open>requests.get\<close>. \<^verbatim>\<open>raise_for_status\<close> raises for a status code
  from 400 to 599 and for no other.
\<close>

record http_response =
  status_code :: nat
  body :: "byte list"

definition raise_for_status :: "http_response \<Rightarrow> py_error + unit" where
  "raise_for_status r =
     (if 400 \<le> status_code r \<and> status_code r < 600 then Inl HTTPError else Inr ())"

text \<open>
  One round of \<^verbatim>\<open>for report_url in reports\<close>, with \<^verbatim>\<open>requests.get\<close> as the parameter
  \<open>get\<close>. The append is the last statement of the round, so a round that raises leaves
  the messages as they were.
\<close>

definition attach_report ::
  "(string \<Rightarrow> py_error + http_response) \<Rightarrow> string \<Rightarrow> turn list \<Rightarrow> (turn list) io" where
  "attach_report get report_url ms =
     bind (lift (file_name report_url)) (\<lambda>fname.
     bind (emit (PrintFileName fname)) (\<lambda>_.
     bind (lift (get report_url)) (\<lambda>response.
     bind (lift (raise_for_status response)) (\<lambda>_.
     lift (append_document fname (body response) ms)))))"

text \<open>The whole loop: what was printed, the messages when the loop ends, and the exception
  that ended it, if any. The documents of the earlier rounds stay appended.\<close>

fun attach_reports ::
  "(string \<Rightarrow> py_error + http_response) \<Rightarrow> string list \<Rightarrow> turn list \<Rightarrow>
     print_call list \<times> turn list \<times> py_error option" where
  "attach_reports get [] ms = ([], ms, None)"
| "attach_reports get (u # us) ms =
     (case attach_report get u ms of
        (out, Inl e) \<Rightarrow> (out, ms, Some e)
      | (out, Inr ms') \<Rightarrow>
          (case attach_reports get us ms' of (out', r) \<Rightarrow> (out @ out', r)))"

text \<open>The name that the specification expects: the part of the URL after its last
  \<^verbatim>\<open>/\<close>, up to the first \<^verbatim>\<open>.\<close> of that part.\<close>

definition last_path_segment :: "string \<Rightarrow> string" where
  "last_path_segment url = rev (takeWhile (\<lambda>x. x \<noteq> CHR ''/'') (rev url))"

definition before_first_dot :: "string \<Rightarrow> string" where
  "before_first_dot segment = takeWhile (\<lambda>x. x \<noteq> CHR ''.'') segment"

section \<open>The requests\<close>

text \<open>
  The keyword arguments of \<^verbatim>\<open>client.converse\<close> and \<^verbatim>\<open>client.converse_stream\<close>. The
  inference parameters are handed over as they are and never inspected, so their type is
  left open.
\<close>

record 'p request =
  modelId :: string
  system :: "string list"
  req_messages :: "turn list"
  inferenceConfig :: 'p

definition PREMIER_MODEL_ID :: string where
  "PREMIER_MODEL_ID = ''us.amazon.nova-premier-v1:0''"

definition system_prompt :: "string list" where
  "system_prompt =
     [''You are an expert analyst that can critically analyse financial reports.'']"

text \<open>\<^verbatim>\<open>content_text = model_response["output"]["message"]["content"][0]["text"]\<close>\<close>

definition content_text_of :: "pyval \<Rightarrow> py_error + pyval" where
  "content_text_of model_response =
     bind_err (getitem model_response ''output'') (\<lambda>output.
     bind_err (getitem output ''message'') (\<lambda>message.
     bind_err (getitem message ''content'') (\<lambda>blocks.
     bind_err (getitem0 blocks) (\<lambda>block.
     getitem block ''text''))))"

text \<open>The variables of the notebook that outlive a cell and that a later cell reads.\<close>

record notebook =
  messages :: "turn list"
  content_text :: "pyval option"

definition make_request :: "'p \<Rightarrow> notebook \<Rightarrow> 'p request" where
  "make_request inf_params s =
     \<lparr>modelId = PREMIER_MODEL_ID, system = system_prompt,
      req_messages = messages s, inferenceConfig = inf_params\<rparr>"

text \<open>
  The cell of the blocking call, with \<^verbatim>\<open>client.converse\<close> as the parameter \<open>client_converse\<close>:
  one call, no \<^verbatim>\<open>try\<close> around it, then the extraction of the text.
\<close>

definition converse_cell ::
  "('p request \<Rightarrow> py_error + pyval) \<Rightarrow> 'p \<Rightarrow> notebook \<Rightarrow> notebook io" where
  "converse_cell client_converse inf_params s =
     bind (lift (client_converse (make_request inf_params s))) (\<lambda>model_response.
     bind (lift (content_text_of model_response)) (\<lambda>text.
     ret (s\<lparr>content_text := Some text\<rparr>)))"

text \<open>The second such cell prints a heading once the text has been extracted.\<close>

definition converse_cell_full ::
  "('p request \<Rightarrow> py_error + pyval) \<Rightarrow> 'p \<Rightarrow> notebook \<Rightarrow> notebook io" where
  "converse_cell_full client_converse inf_params s =
     bind (converse_cell client_converse inf_params s) (\<lambda>s'.
     bind (emit PrintFullResponse) (\<lambda>_. ret s'))"

text \<open>
  The cell of the streaming call, with \<^verbatim>\<open>client.converse_stream\<close> as the parameter; its
  answer is reduced to the value of \<^verbatim>\<open>model_response.get('stream')\<close>.
\<close>

definition stream_cell ::
  "('p request \<Rightarrow> py_error + event_stream option) \<Rightarrow> 'p \<Rightarrow> notebook \<Rightarrow> notebook io" where
  "stream_cell client_converse_stream inf_params s =
     bind (lift (client_converse_stream (make_request inf_params s))) (\<lambda>stream.
     bind (consume_stream stream) (\<lambda>_. ret s))"

text \<open>The cells that append a query: the instructions first, a question later.\<close>

definition query_cell :: "string \<Rightarrow> notebook \<Rightarrow> notebook io" where
  "query_cell text s =
     bind (lift (append_text text (messages s))) (\<lambda>ms. ret (s\<lparr>messages := ms\<rparr>))"

definition follow_up_question :: string where
  "follow_up_question = ''How many employees worked at Amazon at the end of 2023?''"

text \<open>
  Running a cell. Each cell above assigns to the variables kept in \<open>notebook\<close> only
  after its last step that can raise, so a cell that ends with an exception leaves them
  as they were.
\<close>

definition run_cell ::
  "(notebook \<Rightarrow> notebook io) \<Rightarrow> notebook \<Rightarrow> print_call list \<times> notebook \<times> py_error option" where
  "run_cell cell s =
     (case cell s of
        (out, Inl e) \<Rightarrow> (out, s, Some e)
      | (out, Inr s') \<Rightarrow> (out, s', None))"

definition state_after :: "print_call list \<times> notebook \<times> py_error option \<Rightarrow> notebook" where
  "state_after r = fst (snd r)"

section \<open>Stream events as the specification names them\<close>

text \<open>
  The specification speaks of four kinds of event. \<open>encode\<close> gives each the shape in
  which the loop above reads it: exactly the keys that the loop subscripts. The usage
  counts are input, output and total.
\<close>

datatype stream_event =
    MessageStart string
  | ContentDelta string
  | MessageStop string
  | Metadata "(int \<times> int \<times> int) option" "int option"

definition usage_fields :: "(int \<times> int \<times> int) option \<Rightarrow> (string \<times> pyval) list" where
  "usage_fields u =
     (case u of
        None \<Rightarrow> []
      | Some (i, out, t) \<Rightarrow>
          [(''usage'', PDict [(''inputTokens'', PInt i), (''outputTokens'', PInt out),
                              (''totalTokens'', PInt t)])])"

definition metrics_fields :: "int option \<Rightarrow> (string \<times> pyval) list" where
  "metrics_fields l =
     (case l of None \<Rightarrow> [] | Some ms \<Rightarrow> [(''metrics'', PDict [(''latencyMs'', PInt ms)])])"

fun encode :: "stream_event \<Rightarrow> pyval" where
  "encode (MessageStart r) = PDict [(''messageStart'', PDict [(''role'', PStr r)])]"
| "encode (ContentDelta t) =
     PDict [(''contentBlockDelta'', PDict [(''delta'', PDict [(''text'', PStr t)])])]"
| "encode (MessageStop r) = PDict [(''messageStop'', PDict [(''stopReason'', PStr r)])]"
| "encode (Metadata u l) = PDict [(''metadata'', PDict (usage_fields u @ metrics_fields l))]"

text \<open>What the specification expects to be shown for one event.\<close>

definition usage_prints :: "(int \<times> int \<times> int) option \<Rightarrow> print_call list" where
  "usage_prints u =
     (case u of
        None \<Rightarrow> []
      | Some (i, out, t) \<Rightarrow>
          [PrintTokenUsage, PrintInputTokens (PInt i), PrintOutputTokens (PInt out),
           PrintTotalTokens (PInt t)])"

definition latency_prints :: "int option \<Rightarrow> print_call list" where
  "latency_prints l = (case l of None \<Rightarrow> [] | Some ms \<Rightarrow> [PrintLatency (PInt ms)])"

fun prints_of :: "stream_event \<Rightarrow> print_call list" where
  "prints_of (MessageStart r) = [PrintRole (PStr r)]"
| "prints_of (ContentDelta t) = [PrintDelta (PStr t)]"
| "prints_of (MessageStop r) = [PrintStopReason (PStr r)]"
| "prints_of (Metadata u l) = usage_prints u @ latency_prints l"

text \<open>Reading the output back: the delta texts, the stop reasons, the usage and latency
  lines, each in the order of printing.\<close>

fun delta_of :: "print_call \<Rightarrow> pyval list" where
  "delta_of (PrintDelta v) = [v]"
| "delta_of _ = []"

definition emitted_deltas :: "print_call list \<Rightarrow> pyval list" where
  "emitted_deltas out = concat (map delta_of out)"

fun stop_reason_of :: "print_call \<Rightarrow> pyval list" where
  "stop_reason_of (PrintStopReason v) = [v]"
| "stop_reason_of _ = []"

definition stop_reasons :: "print_call list \<Rightarrow> pyval list" where
  "stop_reasons out = concat (map stop_reason_of out)"

fun is_metadata_print :: "print_call \<Rightarrow> bool" where
  "is_metadata_print PrintTokenUsage = True"
| "is_metadata_print (PrintInputTokens v) = True"
| "is_metadata_print (PrintOutputTokens v) = True"
| "is_metadata_print (PrintTotalTokens v) = True"
| "is_metadata_print (PrintLatency v) = True"
| "is_metadata_print _ = False"

definition metadata_prints :: "print_call list \<Rightarrow> print_call list" where
  "metadata_prints out = filter is_metadata_print out"

fun delta_text :: "stream_event \<Rightarrow> pyval list" where
  "delta_text (ContentDelta t) = [PStr t]"
| "delta_text _ = []"

fun is_message_stop :: "stream_event \<Rightarrow> bool" where
  "is_message_stop (MessageStop r) = True"
| "is_message_stop _ = False"

text \<open>The concatenation of printed strings; what \<^verbatim>\<open>print\<close> shows for a value that is
  not a string is left out of the model.\<close>

fun joined :: "pyval list \<Rightarrow> string option" where
  "joined [] = Some []"
| "joined (PStr s # vs) = map_option ((@) s) (joined vs)"
| "joined (_ # vs) = None"

text \<open>A printed line for a value that may be absent.\<close>

definition optional :: "('a \<Rightarrow> print_call) \<Rightarrow> 'a option \<Rightarrow> print_call list" where
  "optional f x = (case x of None \<Rightarrow> [] | Some v \<Rightarrow> [f v])"

section \<open>Sequences of appends\<close>

text \<open>
  The two ways in which the notebook grows the turn, as calls that can be listed, and the
  block that each call is meant to add.
\<close>

datatype append_call = AppendText string | AppendDocument string "byte list"

fun block_of :: "append_call \<Rightarrow> content_block" where
  "block_of (AppendText text) = Text text"
| "block_of (AppendDocument fname pdf_file_object) =
     Document \<lparr>name = fname, format = ''pdf'', bytes = pdf_file_object\<rparr>"

fun apply_call :: "append_call \<Rightarrow> turn list \<Rightarrow> py_error + turn list" where
  "apply_call (AppendText text) ms = append_text text ms"
| "apply_call (AppendDocument fname pdf_file_object) ms =
     append_document fname pdf_file_object ms"

fun run_appends :: "append_call list \<Rightarrow> turn list \<Rightarrow> py_error + turn list" where
  "run_appends [] ms = Inr ms"
| "run_appends (c # cs) ms = bind_err (apply_call c ms) (run_appends cs)"

text \<open>Reading the documents of the first turn back.\<close>

fun document_bytes :: "content_block \<Rightarrow> byte list list" where
  "document_bytes (Document d) = [bytes d]"
| "document_bytes (Text text) = []"

fun stored_bytes :: "turn list \<Rightarrow> byte list list" where
  "stored_bytes [] = []"
| "stored_bytes (t # ts) = concat (map document_bytes (content t))"

section \<open>Response shapes\<close>

text \<open>
  A text block is a dict with the key \<^verbatim>\<open>"text"\<close>. The specification's
  \<^verbatim>\<open>MalformedResponseError\<close> is its name for a response that lacks the expected shape;
  in the notebook that is the exception of the subscript that fails.
\<close>

fun is_text_block :: "pyval \<Rightarrow> bool" where
  "is_text_block (PDict d) = (map_of d ''text'' \<noteq> None)"
| "is_text_block _ = False"

definition malformed_response_error :: "py_error \<Rightarrow> bool" where
  "malformed_response_error e = (e = KeyError \<or> e = IndexError \<or> e = TypeError)"

text \<open>\<^verbatim>\<open>model_response["output"]["message"]["content"]\<close>, the content array.\<close>

definition content_array :: "pyval \<Rightarrow> py_error + pyval" where
  "content_array model_response =
     bind_err (getitem model_response ''output'') (\<lambda>output.
     bind_err (getitem output ''message'') (\<lambda>message.
     getitem message ''content''))"

section \<open>Laws of printing and raising\<close>

lemma bind_ret [simp]: "bind (ret x) f = f x"
  by (simp add: bind_def ret_def split: prod.splits)

lemma bind_lift_Inr [simp]: "bind (lift (Inr x)) f = f x"
  by (simp add: bind_def lift_def split: prod.splits)

lemma bind_lift_Inl [simp]: "bind (lift (Inl e)) f = ([], Inl e)"
  by (simp add: bind_def lift_def)

lemma bind_emit [simp]: "bind (emit p) f = (p # fst (f ()), snd (f ()))"
  by (simp add: bind_def emit_def split: prod.splits)

lemma bind_pair_Inr [simp]: "bind (out, Inr x) f = (out @ fst (f x), snd (f x))"
  by (simp add: bind_def split: prod.splits)

lemma bind_pair_Inl [simp]: "bind (out, Inl e) f = (out, Inl e)"
  by (simp add: bind_def)

lemma bind_err_Inr [simp]: "bind_err (Inr x) f = f x"
  by (simp add: bind_err_def)

lemma bind_err_Inl [simp]: "bind_err (Inl e) f = Inl e"
  by (simp add: bind_err_def)

section \<open>The loop on the events of the specification\<close>

lemmas handler_defs =
  handle_event_def on_message_start_def on_content_block_delta_def on_message_stop_def
  on_metadata_def print_usage_def print_latency_def ret_def emit_def

lemma handle_event_encode: "handle_event (encode ev) = (prints_of ev, Inr ())"
proof (cases ev)
  case (Metadata u l)
  then show ?thesis
    by (cases u; cases l)
      (auto simp add: handler_defs usage_fields_def metrics_fields_def usage_prints_def latency_prints_def)
qed (simp_all add: handler_defs)

lemma for_events_encode:
  "for_events (map encode evs) c =
     (concat (map prints_of evs), case c of None \<Rightarrow> Inr () | Some e \<Rightarrow> Inl e)"
  by (induction evs) (simp_all add: handle_event_encode ret_def raise_def split: option.splits)

lemma emitted_deltas_append [simp]: "emitted_deltas (xs @ ys) = emitted_deltas xs @ emitted_deltas ys"
  by (simp add: emitted_deltas_def)

lemma emitted_deltas_prints_of: "emitted_deltas (prints_of ev) = delta_text ev"
proof (cases ev)
  case (Metadata u l)
  then show ?thesis
    by (cases u; cases l) (auto simp add: emitted_deltas_def usage_prints_def latency_prints_def)
qed (simp_all add: emitted_deltas_def)

lemma emitted_deltas_concat:
  "emitted_deltas (concat (map prints_of evs)) = concat (map delta_text evs)"
proof (induction evs)
  case Nil
  show ?case by (simp add: emitted_deltas_def)
next
  case (Cons ev evs)
  then show ?case by (simp add: emitted_deltas_prints_of)
qed

text \<open>
  Claim C1. Whatever finite sequence of events the stream delivers, the loop prints the
  text of each ContentDelta event exactly once and in the order of arrival. For the
  events MessageStart(assistant), ContentDelta(Hel), ContentDelta(lo),
  MessageStop(end_turn) it prints the role, the two texts in that order and the stop
  reason \<open>end_turn\<close>, and the printed texts together read \<open>Hello\<close>.
\<close>

theorem stream_deltas_in_arrival_order:
  "emitted_deltas (fst (consume_stream (Some \<lparr>delivered = map encode evs, closing = c\<rparr>)))
     = concat (map delta_text evs)
   \<and> consume_stream (Some \<lparr>delivered = map encode
          [MessageStart ''assistant'', ContentDelta ''Hel'', ContentDelta ''lo'',
           MessageStop ''end_turn''], closing = None\<rparr>)
     = ([PrintRole (PStr ''assistant''), PrintDelta (PStr ''Hel''), PrintDelta (PStr ''lo''),
         PrintStopReason (PStr ''end_turn'')], Inr ())
   \<and> joined (emitted_deltas
         [PrintRole (PStr ''assistant''), PrintDelta (PStr ''Hel''), PrintDelta (PStr ''lo''),
          PrintStopReason (PStr ''end_turn'')]) = Some ''Hello''
   \<and> stop_reasons
         [PrintRole (PStr ''assistant''), PrintDelta (PStr ''Hel''), PrintDelta (PStr ''lo''),
          PrintStopReason (PStr ''end_turn'')] = [PStr ''end_turn'']"
proof -
  have every: "emitted_deltas (fst (consume_stream (Some \<lparr>delivered = map encode evs, closing = c\<rparr>)))
     = concat (map delta_text evs)"
    by (simp add: consume_stream_def for_events_encode emitted_deltas_concat)
  have example: "consume_stream (Some \<lparr>delivered = map encode
          [MessageStart ''assistant'', ContentDelta ''Hel'', ContentDelta ''lo'',
           MessageStop ''end_turn''], closing = None\<rparr>)
     = ([PrintRole (PStr ''assistant''), PrintDelta (PStr ''Hel''), PrintDelta (PStr ''lo''),
         PrintStopReason (PStr ''end_turn'')], Inr ())"
    unfolding consume_stream_def option.case event_stream.select_convs for_events_encode
    by simp
  have whole: "joined (emitted_deltas
         [PrintRole (PStr ''assistant''), PrintDelta (PStr ''Hel''), PrintDelta (PStr ''lo''),
          PrintStopReason (PStr ''end_turn'')]) = Some ''Hello''"
    by (simp add: emitted_deltas_def)
  have stop: "stop_reasons
         [PrintRole (PStr ''assistant''), PrintDelta (PStr ''Hel''), PrintDelta (PStr ''lo''),
          PrintStopReason (PStr ''end_turn'')] = [PStr ''end_turn'']"
    by (simp add: stop_reasons_def)
  from every example whole stop show ?thesis by blast
qed

section \<open>The text of the blocking call\<close>

lemma getitem_PDict_Some: "map_of d k = Some v \<Longrightarrow> getitem (PDict d) k = Inr v"
  by simp

lemma getitem_not_text_block:
  "\<not> is_text_block b \<Longrightarrow> getitem b ''text'' = Inl KeyError \<or> getitem b ''text'' = Inl TypeError"
  by (cases b) (simp_all split: option.splits)

lemma content_text_of_array:
  "content_array r = Inr blocks \<Longrightarrow>
     content_text_of r = bind_err (getitem0 blocks) (\<lambda>block. getitem block ''text'')"
  unfolding content_array_def content_text_of_def
  by (cases "getitem r ''output''"; simp; cases "getitem (projr (getitem r ''output'')) ''message''"; simp)

lemma content_text_of_blocks:
  "content_array r = Inr (PList blocks) \<Longrightarrow>
     (blocks = PDict d # rest \<and> map_of d ''text'' = Some t \<longrightarrow> content_text_of r = Inr t) \<and>
     (blocks = [] \<longrightarrow> content_text_of r = Inl IndexError) \<and>
     (blocks = b # rest' \<and> \<not> is_text_block b \<longrightarrow>
        content_text_of r = Inl KeyError \<or> content_text_of r = Inl TypeError)"
proof -
  assume a: "content_array r = Inr (PList blocks)"
  note eq = content_text_of_array [OF a]
  have 1: "blocks = PDict d # rest \<and> map_of d ''text'' = Some t \<longrightarrow> content_text_of r = Inr t"
    by (simp add: eq)
  have 2: "blocks = [] \<longrightarrow> content_text_of r = Inl IndexError"
    by (simp add: eq)
  have 3: "blocks = b # rest' \<and> \<not> is_text_block b \<longrightarrow>
        content_text_of r = Inl KeyError \<or> content_text_of r = Inl TypeError"
    using getitem_not_text_block [of b] by (auto simp add: eq)
  from 1 2 3 show ?thesis by blast
qed

lemma converse_cell_result:
  "cc (make_request p s) = Inr r \<Longrightarrow>
     run_cell (converse_cell cc p) s =
       (case content_text_of r of
          Inl e \<Rightarrow> ([], s, Some e)
        | Inr t \<Rightarrow> ([], s\<lparr>content_text := Some t\<rparr>, None))"
  by (cases "content_text_of r") (simp_all add: run_cell_def converse_cell_def lift_def ret_def)

lemma converse_cell_full_result:
  "cc (make_request p s) = Inr r \<Longrightarrow>
     run_cell (converse_cell_full cc p) s =
       (case content_text_of r of
          Inl e \<Rightarrow> ([], s, Some e)
        | Inr t \<Rightarrow> ([PrintFullResponse], s\<lparr>content_text := Some t\<rparr>, None))"
  by (cases "content_text_of r")
     (simp_all add: run_cell_def converse_cell_full_def converse_cell_def lift_def ret_def emit_def)

text \<open>
  Claim C2. Whatever response the provider returns, the cell of the blocking call takes
  as text the text of the first block of the content array of the response message, and
  keeps it in \<^verbatim>\<open>content_text\<close>. When the array is empty, or its first block is not a text
  block, the cell ends with the exception of the failed subscript (the specification's
  MalformedResponseError): it assigns no text, and in particular no empty string. The
  same holds for the second such cell, which prints its heading only after the text has
  been extracted.
\<close>

theorem content_text_of_first_block:
  "cc (make_request p s) = Inr r \<Longrightarrow> content_array r = Inr (PList blocks) \<Longrightarrow>
     (blocks = PDict d # rest \<and> map_of d ''text'' = Some t \<longrightarrow>
        content_text_of r = Inr t \<and>
        run_cell (converse_cell cc p) s = ([], s\<lparr>content_text := Some t\<rparr>, None) \<and>
        run_cell (converse_cell_full cc p) s =
          ([PrintFullResponse], s\<lparr>content_text := Some t\<rparr>, None)) \<and>
     (blocks = [] \<longrightarrow>
        content_text_of r = Inl IndexError \<and>
        run_cell (converse_cell cc p) s = ([], s, Some IndexError) \<and>
        run_cell (converse_cell_full cc p) s = ([], s, Some IndexError)) \<and>
     (blocks = b # rest' \<and> \<not> is_text_block b \<longrightarrow>
        (content_text_of r = Inl KeyError \<or> content_text_of r = Inl TypeError) \<and>
        (run_cell (converse_cell cc p) s = ([], s, Some KeyError) \<or>
         run_cell (converse_cell cc p) s = ([], s, Some TypeError)) \<and>
        (run_cell (converse_cell_full cc p) s = ([], s, Some KeyError) \<or>
         run_cell (converse_cell_full cc p) s = ([], s, Some TypeError))) \<and>
     (blocks = [] \<or> \<not> is_text_block (hd blocks) \<longrightarrow>
        (\<exists>e. content_text_of r = Inl e \<and> malformed_response_error e \<and>
             run_cell (converse_cell cc p) s = ([], s, Some e) \<and>
             run_cell (converse_cell_full cc p) s = ([], s, Some e)))"
proof -
  assume c: "cc (make_request p s) = Inr r" and a: "content_array r = Inr (PList blocks)"
  have cell:
    "run_cell (converse_cell cc p) s =
       (case content_text_of r of
          Inl e \<Rightarrow> ([], s, Some e)
        | Inr t \<Rightarrow> ([], s\<lparr>content_text := Some t\<rparr>, None))"
    "run_cell (converse_cell_full cc p) s =
       (case content_text_of r of
          Inl e \<Rightarrow> ([], s, Some e)
        | Inr t \<Rightarrow> ([PrintFullResponse], s\<lparr>content_text := Some t\<rparr>, None))"
    using c by (rule converse_cell_result [of cc p s r], rule converse_cell_full_result [of cc p s r])
  note blk = content_text_of_blocks [OF a]
  have 1: "blocks = PDict d # rest \<and> map_of d ''text'' = Some t \<longrightarrow>
        content_text_of r = Inr t \<and>
        run_cell (converse_cell cc p) s = ([], s\<lparr>content_text := Some t\<rparr>, None) \<and>
        run_cell (converse_cell_full cc p) s =
          ([PrintFullResponse], s\<lparr>content_text := Some t\<rparr>, None)"
    using blk [of d rest t] by (auto simp add: cell)
  have 2: "blocks = [] \<longrightarrow>
        content_text_of r = Inl IndexError \<and>
        run_cell (converse_cell cc p) s = ([], s, Some IndexError) \<and>
        run_cell (converse_cell_full cc p) s = ([], s, Some IndexError)"
    using blk by (auto simp add: cell)
  have 3: "blocks = b # rest' \<and> \<not> is_text_block b \<longrightarrow>
        (content_text_of r = Inl KeyError \<or> content_text_of r = Inl TypeError) \<and>
        (run_cell (converse_cell cc p) s = ([], s, Some KeyError) \<or>
         run_cell (converse_cell cc p) s = ([], s, Some TypeError)) \<and>
        (run_cell (converse_cell_full cc p) s = ([], s, Some KeyError) \<or>
         run_cell (converse_cell_full cc p) s = ([], s, Some TypeError))"
  proof
    assume h: "blocks = b # rest' \<and> \<not> is_text_block b"
    with blk [of d rest t b rest']
    have "content_text_of r = Inl KeyError \<or> content_text_of r = Inl TypeError" by blast
    then show "(content_text_of r = Inl KeyError \<or> content_text_of r = Inl TypeError) \<and>
        (run_cell (converse_cell cc p) s = ([], s, Some KeyError) \<or>
         run_cell (converse_cell cc p) s = ([], s, Some TypeError)) \<and>
        (run_cell (converse_cell_full cc p) s = ([], s, Some KeyError) \<or>
         run_cell (converse_cell_full cc p) s = ([], s, Some TypeError))"
      by (elim disjE) (simp_all add: cell)
  qed
  have 4: "blocks = [] \<or> \<not> is_text_block (hd blocks) \<longrightarrow>
        (\<exists>e. content_text_of r = Inl e \<and> malformed_response_error e \<and>
             run_cell (converse_cell cc p) s = ([], s, Some e) \<and>
             run_cell (converse_cell_full cc p) s = ([], s, Some e))"
  proof (cases blocks)
    case Nil
    with 2 show ?thesis by (simp add: malformed_response_error_def)
  next
    case (Cons x xs)
    show ?thesis
    proof
      assume "blocks = [] \<or> \<not> is_text_block (hd blocks)"
      with Cons have "blocks = x # xs \<and> \<not> is_text_block x" by simp
      with blk [of d rest t x xs]
      have "content_text_of r = Inl KeyError \<or> content_text_of r = Inl TypeError" by blast
      then show "\<exists>e. content_text_of r = Inl e \<and> malformed_response_error e \<and>
             run_cell (converse_cell cc p) s = ([], s, Some e) \<and>
             run_cell (converse_cell_full cc p) s = ([], s, Some e)"
        by (elim disjE) (simp_all add: cell malformed_response_error_def)
    qed
  qed
  from 1 2 3 4 show ?thesis by blast
qed

theorem content_text_of_first_block_witness:
  "run_cell (converse_cell (\<lambda>q. Inr (PDict [(''output'', PDict [(''message'',
        PDict [(''role'', PStr ''assistant''),
               (''content'', PList [PDict [(''text'', PStr ''Hello'')]])])])])) (10000 :: nat))
      \<lparr>messages = [\<lparr>role = ''user'', content = [Text ''Task'']\<rparr>], content_text = None\<rparr>
     = ([], \<lparr>messages = [\<lparr>role = ''user'', content = [Text ''Task'']\<rparr>],
             content_text = Some (PStr ''Hello'')\<rparr>, None)
   \<and> run_cell (converse_cell (\<lambda>q. Inr (PDict [(''output'', PDict [(''message'',
        PDict [(''role'', PStr ''assistant''), (''content'', PList [])])])])) (10000 :: nat))
      \<lparr>messages = [\<lparr>role = ''user'', content = [Text ''Task'']\<rparr>], content_text = None\<rparr>
     = ([], \<lparr>messages = [\<lparr>role = ''user'', content = [Text ''Task'']\<rparr>],
             content_text = None\<rparr>, Some IndexError)
   \<and> run_cell (converse_cell (\<lambda>q. Inr (PDict [(''output'', PDict [(''message'',
        PDict [(''role'', PStr ''assistant''),
               (''content'', PList [PDict [(''toolUse'', PDict [])]])])])])) (10000 :: nat))
      \<lparr>messages = [\<lparr>role = ''user'', content = [Text ''Task'']\<rparr>], content_text = None\<rparr>
     = ([], \<lparr>messages = [\<lparr>role = ''user'', content = [Text ''Task'']\<rparr>],
             content_text = None\<rparr>, Some KeyError)
   \<and> content_text_of (PDict [(''output'', PDict [(''message'',
        PDict [(''role'', PStr ''assistant''),
               (''content'', PList [PDict [(''text'', PStr ''Hello'')]])])])]) = Inr (PStr ''Hello'')"
  using
    content_text_of_first_block [of
      "\<lambda>q. Inr (PDict [(''output'', PDict [(''message'',
         PDict [(''role'', PStr ''assistant''),
                (''content'', PList [PDict [(''text'', PStr ''Hello'')]])])])])"
      "10000 :: nat"
      "\<lparr>messages = [\<lparr>role = ''user'', content = [Text ''Task'']\<rparr>], content_text = None\<rparr>"
      "PDict [(''output'', PDict [(''message'',
         PDict [(''role'', PStr ''assistant''),
                (''content'', PList [PDict [(''text'', PStr ''Hello'')]])])])]"
      "[PDict [(''text'', PStr ''Hello'')]]" "[(''text'', PStr ''Hello'')]" "[]" "PStr ''Hello''"
      "PNone" "[]"]
    content_text_of_first_block [of
      "\<lambda>q. Inr (PDict [(''output'', PDict [(''message'',
         PDict [(''role'', PStr ''assistant''), (''content'', PList [])])])])"
      "10000 :: nat"
      "\<lparr>messages = [\<lparr>role = ''user'', content = [Text ''Task'']\<rparr>], content_text = None\<rparr>"
      "PDict [(''output'', PDict [(''message'',
         PDict [(''role'', PStr ''assistant''), (''content'', PList [])])])]"
      "[]" "[]" "[]" "PNone" "PNone" "[]"]
    content_text_of_first_block [of
      "\<lambda>q. Inr (PDict [(''output'', PDict [(''message'',
         PDict [(''role'', PStr ''assistant''),
                (''content'', PList [PDict [(''toolUse'', PDict [])]])])])])"
      "10000 :: nat"
      "\<lparr>messages = [\<lparr>role = ''user'', content = [Text ''Task'']\<rparr>], content_text = None\<rparr>"
      "PDict [(''output'', PDict [(''message'',
         PDict [(''role'', PStr ''assistant''),
                (''content'', PList [PDict [(''toolUse'', PDict [])]])])])]"
      "[PDict [(''toolUse'', PDict [])]]" "[]" "[]" "PNone" "PDict [(''toolUse'', PDict [])]" "[]"]
  by (simp add: content_array_def content_text_of_def bind_err_def run_cell_def converse_cell_def
        lift_def ret_def)

section \<open>Appending keeps the order\<close>

lemma append_content_Cons: "append_content b (t # ts) = Inr (t\<lparr>content := content t @ [b]\<rparr> # ts)"
  by simp

lemma apply_call_Cons:
  "apply_call c (t # ts) = Inr (t\<lparr>content := content t @ [block_of c]\<rparr> # ts)"
  by (cases c) (simp_all add: append_text_def append_document_def document_block_def)

lemma run_appends_Cons:
  "run_appends calls (t # ts) = Inr (t\<lparr>content := content t @ map block_of calls\<rparr> # ts)"
proof (induction calls arbitrary: t)
  case Nil
  show ?case by simp
next
  case (Cons c calls)
  show ?case by (simp add: apply_call_Cons Cons.IH)
qed

text \<open>
  Claim C3. For every sequence of text and document appends, the content of the turn
  afterwards is its content before followed by the appended blocks in the order of the
  calls; on the turn created empty it is exactly the appended blocks in that order.
\<close>

theorem appends_keep_call_order:
  "run_appends calls (t # ts) = Inr (t\<lparr>content := content t @ map block_of calls\<rparr> # ts)
   \<and> run_appends calls initial_messages = Inr [\<lparr>role = ''user'', content = map block_of calls\<rparr>]"
  by (simp add: run_appends_Cons initial_messages_def create_turn_def)

section \<open>The document name and the stored bytes\<close>

lemma split_not_Nil: "split c s \<noteq> []"
  by (induction s) (auto split: list.splits)

lemma hd_split: "hd (split c s) = takeWhile (\<lambda>x. x \<noteq> c) s"
  using split_not_Nil [of c] by (induction s) (auto split: list.splits)

lemma split_no_separator: "c \<notin> set s \<Longrightarrow> split c s = [s]"
  by (induction s) auto

lemma split_separator: "c \<in> set s \<Longrightarrow> \<exists>p q qs. split c s = p # q # qs"
proof (induction s)
  case Nil
  then show ?case by simp
next
  case (Cons x xs)
  show ?case
  proof (cases "x = c")
    case True
    then show ?thesis using split_not_Nil [of c xs] by (cases "split c xs") auto
  next
    case False
    with Cons show ?thesis by auto
  qed
qed

lemma last_split: "last (split c s) = rev (takeWhile (\<lambda>x. x \<noteq> c) (rev s))"
proof (induction s)
  case Nil
  show ?case by simp
next
  case (Cons x xs)
  show ?case
  proof (cases "c \<in> set xs")
    case True
    then obtain p q qs where pq: "split c xs = p # q # qs"
      using split_separator by blast
    from True have tw: "takeWhile (\<lambda>x. x \<noteq> c) (rev xs @ [x]) = takeWhile (\<lambda>x. x \<noteq> c) (rev xs)"
      by (intro takeWhile_append1 [of c]) auto
    show ?thesis using Cons.IH pq tw by simp
  next
    case False
    then have tw: "takeWhile (\<lambda>x. x \<noteq> c) (rev xs @ [x]) = rev xs @ takeWhile (\<lambda>x. x \<noteq> c) [x]"
      by (intro takeWhile_append2) auto
    show ?thesis using split_no_separator [OF False] tw by simp
  qed
qed

lemma file_name_total:
  "file_name url = Inr (before_first_dot (last_path_segment url))"
proof -
  have "first_item (split c s) = Inr (takeWhile (\<lambda>x. x \<noteq> c) s)" for c :: char and s
    using split_not_Nil [of c s] hd_split [of c s]
    by (cases "split c s") (simp_all add: first_item_def)
  then show ?thesis
    by (simp add: file_name_def last_item_def split_not_Nil last_split
        last_path_segment_def before_first_dot_def)
qed


lemma last_path_segment_after_slash:
  "CHR ''/'' \<notin> set segment \<Longrightarrow> last_path_segment (pre @ CHR ''/'' # segment) = segment"
proof -
  assume a: "CHR ''/'' \<notin> set segment"
  then have "takeWhile (\<lambda>x. x \<noteq> CHR ''/'') (rev segment @ CHR ''/'' # rev pre) = rev segment"
    by (subst takeWhile_append2) auto
  then show ?thesis by (simp add: last_path_segment_def)
qed

lemma before_first_dot_append:
  "CHR ''.'' \<notin> set stem \<Longrightarrow> before_first_dot (stem @ CHR ''.'' # ext) = stem"
  unfolding before_first_dot_def by (subst takeWhile_append2) auto

lemma attach_report_fetched:
  "get url = Inr response \<Longrightarrow> raise_for_status response = Inr () \<Longrightarrow>
     attach_report get url (t # ts) =
       ([PrintFileName (before_first_dot (last_path_segment url))],
        Inr (t\<lparr>content := content t @
               [Document \<lparr>name = before_first_dot (last_path_segment url), format = ''pdf'',
                          bytes = body response\<rparr>]\<rparr> # ts))"
  by (simp add: attach_report_def file_name_total append_document_def document_block_def lift_def)

text \<open>
  Claim C9. For every URL, the name given to the document is the last path segment of
  the URL cut at its first dot, as for the report whose URL ends in
  \<open>Amazon-2024-Annual-Report.pdf\<close>; the round of the download loop stores the document
  under that name, and takes no name from its caller.
\<close>

theorem document_name_from_url:
  "file_name url = Inr (before_first_dot (last_path_segment url))
   \<and> file_name
        ''https://s2.q4cdn.com/299287126/files/doc_financials/2025/ar/Amazon-2024-Annual-Report.pdf''
      = Inr ''Amazon-2024-Annual-Report''
   \<and> (get url = Inr response \<and> raise_for_status response = Inr () \<longrightarrow>
        snd (attach_report get url (t # ts)) =
          Inr (t\<lparr>content := content t @
                 [Document \<lparr>name = before_first_dot (last_path_segment url), format = ''pdf'',
                            bytes = body response\<rparr>]\<rparr> # ts))"
proof -
  have "file_name
        ''https://s2.q4cdn.com/299287126/files/doc_financials/2025/ar/Amazon-2024-Annual-Report.pdf''
      = Inr ''Amazon-2024-Annual-Report''"
    unfolding file_name_total by (simp add: last_path_segment_def before_first_dot_def)
  then show ?thesis
    by (simp add: file_name_total attach_report_fetched)
qed

theorem document_name_from_url_witness:
  "snd (attach_report (\<lambda>u. Inr \<lparr>status_code = 200, body = [0x25, 0x50, 0x44, 0x46]\<rparr>)
        ''https://s2.q4cdn.com/299287126/files/doc_financials/2024/ar/Amazon-com-Inc-2023-Annual-Report.pdf''
        [\<lparr>role = ''user'', content = [Text ''Task'']\<rparr>])
     = Inr [\<lparr>role = ''user'', content =
              [Text ''Task'',
               Document \<lparr>name = ''Amazon-com-Inc-2023-Annual-Report'', format = ''pdf'',
                          bytes = [0x25, 0x50, 0x44, 0x46]\<rparr>]\<rparr>]"
  using document_name_from_url [of
      "''https://s2.q4cdn.com/299287126/files/doc_financials/2024/ar/Amazon-com-Inc-2023-Annual-Report.pdf''"
      "\<lambda>u. Inr \<lparr>status_code = 200, body = [0x25, 0x50, 0x44, 0x46]\<rparr>"
      "\<lparr>status_code = 200, body = [0x25, 0x50, 0x44, 0x46]\<rparr>"
      "\<lparr>role = ''user'', content = [Text ''Task'']\<rparr>" "[]"]
  by (simp add: raise_for_status_def last_path_segment_def before_first_dot_def)

text \<open>
  Against claim C4 as stated: an append with an empty payload does not fail. The call
  succeeds and stores a document of no bytes, also when the payload is the empty body of
  a download that was answered with status 200.
\<close>

theorem append_document_empty_bytes_counterexample:
  "append_document ''Amazon-2024-Annual-Report'' [] initial_messages
     = Inr [\<lparr>role = ''user'', content =
              [Document \<lparr>name = ''Amazon-2024-Annual-Report'', format = ''pdf'', bytes = []\<rparr>]\<rparr>]
   \<and> snd (attach_report (\<lambda>u. Inr \<lparr>status_code = 200, body = []\<rparr>)
          ''https://s2.q4cdn.com/299287126/files/doc_financials/2025/ar/Amazon-2024-Annual-Report.pdf''
          initial_messages)
     = Inr [\<lparr>role = ''user'', content =
              [Document \<lparr>name = ''Amazon-2024-Annual-Report'', format = ''pdf'', bytes = []\<rparr>]\<rparr>]"
proof -
  have a: "append_document ''Amazon-2024-Annual-Report'' [] initial_messages
     = Inr [\<lparr>role = ''user'', content =
              [Document \<lparr>name = ''Amazon-2024-Annual-Report'', format = ''pdf'', bytes = []\<rparr>]\<rparr>]"
    by (simp add: append_document_def document_block_def initial_messages_def create_turn_def)
  have b: "snd (attach_report (\<lambda>u. Inr \<lparr>status_code = 200, body = []\<rparr>)
          ''https://s2.q4cdn.com/299287126/files/doc_financials/2025/ar/Amazon-2024-Annual-Report.pdf''
          initial_messages)
     = Inr [\<lparr>role = ''user'', content =
              [Document \<lparr>name = ''Amazon-2024-Annual-Report'', format = ''pdf'', bytes = []\<rparr>]\<rparr>]"
    unfolding initial_messages_def
    by (subst attach_report_fetched [where response = "\<lparr>status_code = 200, body = []\<rparr>"])
       (simp_all add: raise_for_status_def create_turn_def last_path_segment_def before_first_dot_def)
  from a b show ?thesis by blast
qed

text \<open>
  Claim C4, amended. Every append of a document succeeds, whatever the payload, the empty
  one included; the format stored is always \<open>pdf\<close>, and the stored bytes are the bytes
  passed in. In the download loop, a round whose download succeeds stores the body of the
  answer unchanged.
\<close>

theorem append_document_keeps_bytes:
  "append_document n b (t # ts)
     = Inr (t\<lparr>content := content t @ [Document \<lparr>name = n, format = ''pdf'', bytes = b\<rparr>]\<rparr> # ts)
   \<and> bind_err (append_document n b (t # ts)) (\<lambda>ms. Inr (stored_bytes ms))
     = Inr (stored_bytes (t # ts) @ [b])
   \<and> (get url = Inr response \<and> raise_for_status response = Inr () \<longrightarrow>
        bind_err (snd (attach_report get url (t # ts))) (\<lambda>ms. Inr (stored_bytes ms))
          = Inr (stored_bytes (t # ts) @ [body response]))"
  by (simp add: append_document_def document_block_def attach_report_fetched)

theorem append_document_keeps_bytes_witness:
  "bind_err (snd (attach_report (\<lambda>u. Inr \<lparr>status_code = 200, body = [0x25, 0x50, 0x44, 0x46]\<rparr>)
        ''https://s2.q4cdn.com/299287126/files/doc_financials/2025/ar/Amazon-2024-Annual-Report.pdf''
        [\<lparr>role = ''user'', content = [Text ''Task'']\<rparr>])) (\<lambda>ms. Inr (stored_bytes ms))
     = Inr [[0x25, 0x50, 0x44, 0x46]]"
  using append_document_keeps_bytes [of
      "''Amazon-2024-Annual-Report''" "[0x25, 0x50, 0x44, 0x46]"
      "\<lparr>role = ''user'', content = [Text ''Task'']\<rparr>" "[]"
      "\<lambda>u. Inr \<lparr>status_code = 200, body = [0x25, 0x50, 0x44, 0x46]\<rparr>"
      "''https://s2.q4cdn.com/299287126/files/doc_financials/2025/ar/Amazon-2024-Annual-Report.pdf''"
      "\<lparr>status_code = 200, body = [0x25, 0x50, 0x44, 0x46]\<rparr>"]
  by (simp add: raise_for_status_def)

section \<open>The end of the stream and the metadata\<close>

lemma consume_stream_encode:
  "consume_stream (Some \<lparr>delivered = map encode evs, closing = c\<rparr>) =
     (concat (map prints_of evs), case c of None \<Rightarrow> Inr () | Some e \<Rightarrow> Inl e)"
  by (simp add: consume_stream_def for_events_encode)

text \<open>
  Against claim C5 as stated: a stream that delivers a MessageStart and a ContentDelta and
  then ends, with no MessageStop, is consumed to its end without any exception. The loop
  completes as it does after a MessageStop.
\<close>

theorem stream_end_without_stop_counterexample:
  "consume_stream (Some \<lparr>delivered = map encode [MessageStart ''assistant'', ContentDelta ''Hel''],
                         closing = None\<rparr>)
     = ([PrintRole (PStr ''assistant''), PrintDelta (PStr ''Hel'')], Inr ())"
  unfolding consume_stream_encode by simp

text \<open>
  Claim C5, amended. For every event sequence without a MessageStop, the loop ends as
  the iteration of the stream ends: normally when the iterator just stops, and with the
  transport's exception when the iterator raises one. In both cases every delta text
  received before the end has been printed, in order, and stays printed.
\<close>

theorem stream_without_stop_ends_as_transport:
  "\<forall>ev \<in> set evs. \<not> is_message_stop ev \<Longrightarrow>
     snd (consume_stream (Some \<lparr>delivered = map encode evs, closing = None\<rparr>)) = Inr ()
     \<and> snd (consume_stream (Some \<lparr>delivered = map encode evs, closing = Some e\<rparr>)) = Inl e
     \<and> emitted_deltas (fst (consume_stream (Some \<lparr>delivered = map encode evs, closing = c\<rparr>)))
         = concat (map delta_text evs)"
  by (simp add: consume_stream_encode emitted_deltas_concat)

theorem stream_without_stop_ends_as_transport_witness:
  "snd (consume_stream (Some \<lparr>delivered =
           map encode [MessageStart ''assistant'', ContentDelta ''Hel'', ContentDelta ''lo''],
           closing = None\<rparr>)) = Inr ()
   \<and> snd (consume_stream (Some \<lparr>delivered =
           map encode [MessageStart ''assistant'', ContentDelta ''Hel'', ContentDelta ''lo''],
           closing = Some TransportFailure\<rparr>)) = Inl TransportFailure
   \<and> emitted_deltas (fst (consume_stream (Some \<lparr>delivered =
           map encode [MessageStart ''assistant'', ContentDelta ''Hel'', ContentDelta ''lo''],
           closing = Some TransportFailure\<rparr>))) = [PStr ''Hel'', PStr ''lo'']"
  using stream_without_stop_ends_as_transport [of
      "[MessageStart ''assistant'', ContentDelta ''Hel'', ContentDelta ''lo'']"
      TransportFailure "Some TransportFailure"]
  by simp

text \<open>
  Claim C6. Whether a Metadata event arrives before or after the MessageStop, the loop
  prints its usage counts (input, output, total) and its latency, the delta texts printed
  are the same in both orders, and the loop ends in the same way. A Metadata event
  without usage or without metrics is consumed without an exception, and the lines of the
  missing part are simply not printed.
\<close>

theorem metadata_before_or_after_stop:
  "metadata_prints (fst (consume_stream (Some \<lparr>delivered =
        map encode (pre @ [Metadata (Some (i, out, t)) (Some ms), MessageStop r] @ post),
        closing = c\<rparr>)))
     = metadata_prints (concat (map prints_of pre)) @
       [PrintTokenUsage, PrintInputTokens (PInt i), PrintOutputTokens (PInt out),
        PrintTotalTokens (PInt t), PrintLatency (PInt ms)] @
       metadata_prints (concat (map prints_of post))
   \<and> metadata_prints (fst (consume_stream (Some \<lparr>delivered =
        map encode (pre @ [MessageStop r, Metadata (Some (i, out, t)) (Some ms)] @ post),
        closing = c\<rparr>)))
     = metadata_prints (concat (map prints_of pre)) @
       [PrintTokenUsage, PrintInputTokens (PInt i), PrintOutputTokens (PInt out),
        PrintTotalTokens (PInt t), PrintLatency (PInt ms)] @
       metadata_prints (concat (map prints_of post))
   \<and> emitted_deltas (fst (consume_stream (Some \<lparr>delivered =
        map encode (pre @ [Metadata u l, MessageStop r] @ post), closing = c\<rparr>)))
     = emitted_deltas (fst (consume_stream (Some \<lparr>delivered =
        map encode (pre @ [MessageStop r, Metadata u l] @ post), closing = c\<rparr>)))
   \<and> snd (consume_stream (Some \<lparr>delivered =
        map encode (pre @ [Metadata u l, MessageStop r] @ post), closing = c\<rparr>))
     = snd (consume_stream (Some \<lparr>delivered =
        map encode (pre @ [MessageStop r, Metadata u l] @ post), closing = c\<rparr>))
   \<and> snd (consume_stream (Some \<lparr>delivered =
        map encode (pre @ [Metadata u l] @ post), closing = None\<rparr>)) = Inr ()
   \<and> fst (consume_stream (Some \<lparr>delivered =
        map encode (pre @ [Metadata None None] @ post), closing = c\<rparr>))
     = fst (consume_stream (Some \<lparr>delivered = map encode (pre @ post), closing = c\<rparr>))
   \<and> consume_stream (Some \<lparr>delivered = [encode (Metadata None (Some ms))], closing = None\<rparr>)
     = ([PrintLatency (PInt ms)], Inr ())
   \<and> consume_stream (Some \<lparr>delivered = [encode (Metadata (Some (i, out, t)) None)], closing = None\<rparr>)
     = ([PrintTokenUsage, PrintInputTokens (PInt i), PrintOutputTokens (PInt out),
         PrintTotalTokens (PInt t)], Inr ())"
proof -
  have single: "consume_stream (Some \<lparr>delivered = [encode ev], closing = None\<rparr>)
      = (prints_of ev, Inr ())" for ev
    using consume_stream_encode [of "[ev]" None] by simp
  show ?thesis
    unfolding consume_stream_encode single
    by (simp add: usage_prints_def latency_prints_def metadata_prints_def emitted_deltas_def)
qed

section \<open>Requests and the turn\<close>

lemma run_cell_converse:
  "messages (state_after (run_cell (converse_cell cc p) s)) = messages s"
  by (cases "cc (make_request p s)"; simp add: run_cell_def state_after_def converse_cell_def lift_def ret_def;
      cases "content_text_of (projr (cc (make_request p s)))"; simp)

lemma run_cell_converse_full:
  "messages (state_after (run_cell (converse_cell_full cc p) s)) = messages s"
  by (cases "cc (make_request p s)"; simp add: run_cell_def state_after_def converse_cell_full_def
        converse_cell_def lift_def ret_def emit_def;
      cases "content_text_of (projr (cc (make_request p s)))"; simp)

lemma run_cell_stream: "state_after (run_cell (stream_cell cs p) s) = s"
proof (cases "cs (make_request p s)")
  case (Inl e)
  then show ?thesis by (simp add: run_cell_def state_after_def stream_cell_def)
next
  case (Inr stream)
  obtain out r where c: "consume_stream stream = (out, r)" by (cases "consume_stream stream")
  show ?thesis
    by (cases r) (simp_all add: run_cell_def state_after_def stream_cell_def Inr c ret_def)
qed

lemma run_cell_query:
  "messages s = t # ts \<Longrightarrow>
     state_after (run_cell (query_cell q) s) = s\<lparr>messages := t\<lparr>content := content t @ [Text q]\<rparr> # ts\<rparr>"
  by (simp add: run_cell_def state_after_def query_cell_def append_text_def ret_def)

text \<open>
  Claim C7. Neither the cell of the blocking call nor the cell of the streaming call
  changes the messages, whether the call succeeds or raises. The turn grows only by an
  append: after a query has been appended, the request that is built carries the previous
  content followed by the new text block, also when requests were made in between.
\<close>

theorem requests_leave_the_turn:
  "messages (state_after (run_cell (converse_cell cc p) s)) = messages s
   \<and> messages (state_after (run_cell (converse_cell_full cc p) s)) = messages s
   \<and> messages (state_after (run_cell (stream_cell cs p) s)) = messages s
   \<and> (messages s = t # ts \<longrightarrow>
        req_messages (make_request p (state_after (run_cell (query_cell q) s)))
          = t\<lparr>content := content t @ [Text q]\<rparr> # ts)
   \<and> (messages s = t # ts \<longrightarrow>
        req_messages (make_request p
          (state_after (run_cell (query_cell q)
            (state_after (run_cell (stream_cell cs p)
              (state_after (run_cell (converse_cell cc p) s)))))))
          = t\<lparr>content := content t @ [Text q]\<rparr> # ts)"
  by (simp add: run_cell_converse run_cell_converse_full run_cell_stream run_cell_query
        make_request_def)

theorem requests_leave_the_turn_witness:
  "req_messages (make_request (10000 :: nat)
     (state_after (run_cell (query_cell follow_up_question)
       (state_after (run_cell (stream_cell (\<lambda>r. Inr (Some \<lparr>delivered =
            map encode [MessageStart ''assistant'', ContentDelta ''Hel'', ContentDelta ''lo'',
                        MessageStop ''end_turn''], closing = None\<rparr>)) (10000 :: nat))
         (state_after (run_cell (converse_cell (\<lambda>r. Inr (PDict [(''output'', PDict [(''message'',
              PDict [(''role'', PStr ''assistant''),
                     (''content'', PList [PDict [(''text'', PStr ''Hello'')]])])])])) (10000 :: nat))
           \<lparr>messages = [\<lparr>role = ''user'', content = [Text ''Task'']\<rparr>],
            content_text = None\<rparr>)))))))
     = [\<lparr>role = ''user'', content = [Text ''Task'', Text follow_up_question]\<rparr>]"
  using requests_leave_the_turn [of
      "\<lambda>r. Inr (PDict [(''output'', PDict [(''message'',
              PDict [(''role'', PStr ''assistant''),
                     (''content'', PList [PDict [(''text'', PStr ''Hello'')]])])])])"
      "10000 :: nat"
      "\<lparr>messages = [\<lparr>role = ''user'', content = [Text ''Task'']\<rparr>], content_text = None\<rparr>"
      "\<lambda>r. Inr (Some \<lparr>delivered =
            map encode [MessageStart ''assistant'', ContentDelta ''Hel'', ContentDelta ''lo'',
                        MessageStop ''end_turn''], closing = None\<rparr>)"
      "\<lparr>role = ''user'', content = [Text ''Task'']\<rparr>" "[]" follow_up_question]
  by simp

section \<open>One event, several keys\<close>

text \<open>
  Claim C10. For one event, the loop body tests the four keys one after the other, in the
  order messageStart, contentBlockDelta, messageStop, metadata, each test independent of
  the others: an event that carries several of the keys, in any order and among any other
  keys, gets the output of every key it carries, in that fixed order, and an event that
  carries none of them gets no output and no exception.
\<close>

theorem handle_event_checks_every_key:
  "map_of d ''messageStart'' = map_option (\<lambda>r. PDict [(''role'', r)]) start \<Longrightarrow>
   map_of d ''contentBlockDelta'' = map_option (\<lambda>t. PDict [(''delta'', PDict [(''text'', t)])]) delta \<Longrightarrow>
   map_of d ''messageStop'' = map_option (\<lambda>r. PDict [(''stopReason'', r)]) stop \<Longrightarrow>
   map_of d ''metadata'' = map_option (\<lambda>ul. PDict (usage_fields (fst ul) @ metrics_fields (snd ul))) meta \<Longrightarrow>
   handle_event (PDict d) =
     (optional PrintRole start @ optional PrintDelta delta @ optional PrintStopReason stop @
      (case meta of None \<Rightarrow> [] | Some ul \<Rightarrow> usage_prints (fst ul) @ latency_prints (snd ul)),
      Inr ())"
proof -
  assume a: "map_of d ''messageStart'' = map_option (\<lambda>r. PDict [(''role'', r)]) start"
    and b: "map_of d ''contentBlockDelta'' = map_option (\<lambda>t. PDict [(''delta'', PDict [(''text'', t)])]) delta"
    and c: "map_of d ''messageStop'' = map_option (\<lambda>r. PDict [(''stopReason'', r)]) stop"
    and m: "map_of d ''metadata'' = map_option (\<lambda>ul. PDict (usage_fields (fst ul) @ metrics_fields (snd ul))) meta"
  have 1: "on_message_start (PDict d) = (optional PrintRole start, Inr ())"
    using a by (cases start) (simp_all add: on_message_start_def optional_def ret_def emit_def)
  have 2: "on_content_block_delta (PDict d) = (optional PrintDelta delta, Inr ())"
    using b by (cases delta) (simp_all add: on_content_block_delta_def optional_def ret_def emit_def)
  have 3: "on_message_stop (PDict d) = (optional PrintStopReason stop, Inr ())"
    using c by (cases stop) (simp_all add: on_message_stop_def optional_def ret_def emit_def)
  have 4: "on_metadata (PDict d) =
      (case meta of None \<Rightarrow> [] | Some ul \<Rightarrow> usage_prints (fst ul) @ latency_prints (snd ul), Inr ())"
  proof (cases meta)
    case None
    with m show ?thesis by (simp add: on_metadata_def ret_def)
  next
    case (Some ul)
    obtain u l where ul: "ul = (u, l)" by (cases ul)
    have "on_metadata (encode (Metadata u l)) = (usage_prints u @ latency_prints l, Inr ())"
      using handle_event_encode [of "Metadata u l"]
      by (simp add: handle_event_def on_message_start_def on_content_block_delta_def
            on_message_stop_def ret_def)
    moreover have "on_metadata (PDict d) = on_metadata (encode (Metadata u l))"
      using m Some ul by (simp add: on_metadata_def print_latency_def)
    ultimately show ?thesis using Some ul by simp
  qed
  show ?thesis by (simp add: handle_event_def 1 2 3 4)
qed

theorem handle_event_checks_every_key_witness:
  "handle_event (PDict
      [(''metadata'', PDict [(''usage'', PDict [(''inputTokens'', PInt 5), (''outputTokens'', PInt 2),
                                               (''totalTokens'', PInt 7)]),
                            (''metrics'', PDict [(''latencyMs'', PInt 90)])]),
       (''messageStop'', PDict [(''stopReason'', PStr ''end_turn'')]),
       (''contentBlockDelta'', PDict [(''delta'', PDict [(''text'', PStr ''Hel'')])]),
       (''messageStart'', PDict [(''role'', PStr ''assistant'')])])
     = ([PrintRole (PStr ''assistant''), PrintDelta (PStr ''Hel''),
         PrintStopReason (PStr ''end_turn''), PrintTokenUsage, PrintInputTokens (PInt 5),
         PrintOutputTokens (PInt 2), PrintTotalTokens (PInt 7), PrintLatency (PInt 90)], Inr ())
   \<and> handle_event (PDict [(''contentBlockStop'', PDict [(''contentBlockIndex'', PInt 0)])])
     = ([], Inr ())"
  using
    handle_event_checks_every_key [of
      "[(''metadata'', PDict [(''usage'', PDict [(''inputTokens'', PInt 5), (''outputTokens'', PInt 2),
                                                (''totalTokens'', PInt 7)]),
                             (''metrics'', PDict [(''latencyMs'', PInt 90)])]),
        (''messageStop'', PDict [(''stopReason'', PStr ''end_turn'')]),
        (''contentBlockDelta'', PDict [(''delta'', PDict [(''text'', PStr ''Hel'')])]),
        (''messageStart'', PDict [(''role'', PStr ''assistant'')])]"
      "Some (PStr ''assistant'')" "Some (PStr ''Hel'')" "Some (PStr ''end_turn'')"
      "Some (Some (5, 2, 7), Some 90)"]
    handle_event_checks_every_key [of
      "[(''contentBlockStop'', PDict [(''contentBlockIndex'', PInt 0)])]" None None None None]
  by (simp add: optional_def usage_fields_def metrics_fields_def usage_prints_def
        latency_prints_def)

end
